theory Spec2Isabelle
  imports Complex_Main "HOL-Library.Sublist"
begin

section \<open>JavaScript values, errors and promise outcomes\<close>

text \<open>
  The option values that the command-line parser hands to the program are JavaScript
  values: a flag that was not given is \<^verbatim>\<open>undefined\<close>, a flag given without an
  argument is \<^verbatim>\<open>true\<close>, a flag given with an argument is a string.
\<close>

datatype jsval = JUndefined | JNull | JBool bool | JNum int | JStr string | JObject

text \<open>JavaScript truthiness, as tested by \<^verbatim>\<open>!v\<close> and \<^verbatim>\<open>if (v)\<close>.\<close>

fun truthy :: "jsval \<Rightarrow> bool" where
  "truthy JUndefined = False"
| "truthy JNull = False"
| "truthy (JBool b) = b"
| "truthy (JNum n) = (n \<noteq> 0)"
| "truthy (JStr s) = (s \<noteq> [])"
| "truthy JObject = True"

text \<open>\<^verbatim>\<open>typeof v === 'string'\<close>.\<close>

fun is_string :: "jsval \<Rightarrow> bool" where
  "is_string (JStr s) = True"
| "is_string v = False"

text \<open>
  The values the program throws or rejects with are either plain strings
  (\<^verbatim>\<open>'Bad image format'\<close>) or error objects raised by a library.
\<close>

datatype error = StrError string | LibError string

text \<open>
  The state in which a promise ends. \<open>Uncaught e\<close> stands for an exception thrown
  inside a callback that a library invokes later, outside every promise chain: the
  deferred the callback was meant to settle is neither resolved nor rejected, and no
  handler attached to it ever runs.
\<close>

datatype 'a outcome = Resolved 'a | Rejected error | Uncaught error

section \<open>Strings: \<^verbatim>\<open>split\<close> and the conversion of an array to a string\<close>

text \<open>
  \<^verbatim>\<open>s.split(',')\<close>: one token for every stretch between separators, empty tokens
  included; the empty string splits into the single empty token.
\<close>

fun split :: "char \<Rightarrow> string \<Rightarrow> string list" where
  "split c [] = [[]]"
| "split c (x # xs) =
     (if x = c then [] # split c xs
      else (case split c xs of [] \<Rightarrow> [[x]] | t # ts \<Rightarrow> (x # t) # ts))"

text \<open>\<^verbatim>\<open>'' + array\<close>: the elements joined by commas.\<close>

fun join :: "string \<Rightarrow> string list \<Rightarrow> string" where
  "join sep [] = []"
| "join sep [t] = t"
| "join sep (t # u # ts) = t @ sep @ join sep (u # ts)"

section \<open>The platform registry and the settings\<close>

text \<open>The object \<^verbatim>\<open>PLATFORMS\<close>; an object lists its string keys in insertion order.\<close>

definition PLATFORMS :: "(string \<times> string list) list" where
  "PLATFORMS =
     [(''android'', [''./platforms/icons/android'', ''./platforms/splash/android'']),
      (''ios'', [''./platforms/icons/ios'', ''./platforms/splash/ios'']),
      (''windows'', [''./platforms/icons/windows'', ''./platforms/splash/windows'']),
      (''blackberry10'', [''./platforms/icons/blackberry10''])]"

definition keys :: "(string \<times> 'v) list \<Rightarrow> string list" where
  "keys obj = map fst obj"

record settings =
  iconfile :: string
  splashfile :: string
  platforms :: jsval
  outputdirectory :: string

section \<open>Platform selection\<close>

text \<open>
  The body of the \<^verbatim>\<open>forEach\<close> in \<^verbatim>\<open>checkPlatforms\<close>: \<^verbatim>\<open>_.find\<close> returns the
  matching key or \<^verbatim>\<open>undefined\<close>, and the \<^verbatim>\<open>if\<close> tests that result for truthiness.
  The pair is (\<^verbatim>\<open>platformsToProcess\<close>, \<^verbatim>\<open>platformsUnknown\<close>).
\<close>

definition sort_platform ::
    "string list \<Rightarrow> string list \<times> string list \<Rightarrow> string \<Rightarrow> string list \<times> string list" where
  "sort_platform platformsKeys acc platform =
     (if (case find (\<lambda>p. platform = p) platformsKeys of
            None \<Rightarrow> False
          | Some p \<Rightarrow> truthy (JStr p))
      then (fst acc @ [platform], snd acc)
      else (fst acc, snd acc @ [platform]))"

definition checkPlatforms :: "settings \<Rightarrow> string list outcome" where
  "checkPlatforms st =
     (let platformsKeys = keys PLATFORMS in
      if \<not> truthy (platforms st) \<or> \<not> is_string (platforms st) then Resolved platformsKeys
      else
        (case platforms st of
           JStr s \<Rightarrow>
             (let (platformsToProcess, platformsUnknown) =
                    foldl (sort_platform platformsKeys) ([], []) (split CHR '','' s)
              in if length platformsUnknown > 0
                 then Rejected (StrError (''Bad platforms: '' @ join '','' platformsUnknown))
                 else Resolved platformsToProcess)
         | _ \<Rightarrow> Resolved platformsKeys))"

section \<open>Images, the heap and the outside world\<close>

text \<open>
  A decoded image is a mutable object holding a bitmap. The program reads only the
  bitmap's width and height; the pixel bytes are carried along. Numbers that are
  integers in every run (dimensions, sizes) are \<open>int\<close>; the crop offsets, which the
  program obtains by a division, are \<open>rat\<close> (a difference of two integers below
  \<open>2 ^ 53\<close> and its half are exact in a double).
\<close>

record bitmap =
  width :: int
  height :: int
  data :: "nat list"

text \<open>
  One entry of a definition set. An icon entry carries \<^verbatim>\<open>name\<close> and \<^verbatim>\<open>size\<close>, a
  splash entry \<^verbatim>\<open>name\<close>, \<^verbatim>\<open>width\<close> and \<^verbatim>\<open>height\<close>; the record has all four
  fields, and each transform reads the ones of its kind.
\<close>

record output_definition =
  name :: string
  size_d :: int
  width_d :: int
  height_d :: int

text \<open>A definition set, the value of \<^verbatim>\<open>require('./platforms/...')\<close>.\<close>

record config =
  platform :: string
  type :: string
  path :: string
  definitions :: "output_definition list"

text \<open>
  Images live in a heap and are referred to by their index in it, so that a function
  which mutates one image visibly leaves the others alone. \<^verbatim>\<open>g_imageObjects\<close> holds
  the references of the two source images.
\<close>

record imageObjects =
  icon :: nat
  splash :: nat

text \<open>What the program does to the outside world, in the order it does it.\<close>

datatype event =
    EvRead string
  | EvPathExists string
  | EvEnsureDir string
  | EvWrite string bitmap

text \<open>
  What \<^verbatim>\<open>image.write(path, cb)\<close> does with its callback: it calls it without an error,
  or with an error before \<^verbatim>\<open>write\<close> returns (an argument it refuses), or with an
  error later, from the event loop (the file could not be written).
\<close>

datatype write_result = WriteOk | WriteErrSync error | WriteErrAsync error

text \<open>
  The libraries the program calls. What reading, writing and the directory checks
  answer may depend on everything done before, so they receive the trace so far.
  Status lines printed by \<^verbatim>\<open>display\<close> are not part of the model.
\<close>

record env =
  path_join :: "string \<Rightarrow> string \<Rightarrow> string"
  jimp_read :: "event list \<Rightarrow> string \<Rightarrow> error + bitmap"
  jimp_resize :: "int \<Rightarrow> int \<Rightarrow> bitmap \<Rightarrow> error + bitmap"
  jimp_crop :: "rat \<Rightarrow> rat \<Rightarrow> int \<Rightarrow> int \<Rightarrow> bitmap \<Rightarrow> error + bitmap"
  jimp_write :: "event list \<Rightarrow> string \<Rightarrow> bitmap \<Rightarrow> write_result"
  pathExists :: "event list \<Rightarrow> string \<Rightarrow> bool"
  ensureDir :: "event list \<Rightarrow> string \<Rightarrow> error option"
  require :: "string \<Rightarrow> config"

record state =
  heap :: "bitmap list"
  trace :: "event list"
  g_selectedPlatforms :: "string list"
  g_imageObjects :: "imageObjects option"

definition init_state :: state where
  "init_state = \<lparr>heap = [], trace = [], g_selectedPlatforms = [], g_imageObjects = None\<rparr>"

section \<open>Promises\<close>

type_synonym 'a io = "state \<Rightarrow> 'a outcome \<times> state"

definition resolve :: "'a \<Rightarrow> 'a io" where
  "resolve a s = (Resolved a, s)"

definition reject :: "error \<Rightarrow> 'a io" where
  "reject e s = (Rejected e, s)"

text \<open>
  \<^verbatim>\<open>p.then(f)\<close>: \<open>f\<close> runs only when \<open>p\<close> resolves; a rejection is passed on, and
  nothing follows a promise that never settles.
\<close>

definition thenP :: "'a io \<Rightarrow> ('a \<Rightarrow> 'b io) \<Rightarrow> 'b io" where
  "thenP p f s =
     (case p s of
        (Resolved a, s') \<Rightarrow> f a s'
      | (Rejected e, s') \<Rightarrow> (Rejected e, s')
      | (Uncaught e, s') \<Rightarrow> (Uncaught e, s'))"

text \<open>\<^verbatim>\<open>Q.mapSeries(xs, f)\<close>: one element after the other, stopping at the first failure.\<close>

fun mapSeries :: "'a list \<Rightarrow> ('a \<Rightarrow> 'b io) \<Rightarrow> 'b list io" where
  "mapSeries [] f = resolve []"
| "mapSeries (x # xs) f =
     thenP (f x) (\<lambda>y. thenP (mapSeries xs f) (\<lambda>ys. resolve (y # ys)))"

section \<open>Validation\<close>

text \<open>\<^verbatim>\<open>Jimp.read(path)\<close>: a new image object on the heap, or a rejection.\<close>

definition Jimp_read :: "env \<Rightarrow> string \<Rightarrow> nat io" where
  "Jimp_read E file s =
     (let s' = s\<lparr>trace := trace s @ [EvRead file]\<rparr> in
      case jimp_read E (trace s) file of
        Inl err \<Rightarrow> (Rejected err, s')
      | Inr bm \<Rightarrow> (Resolved (length (heap s')), s'\<lparr>heap := heap s' @ [bm]\<rparr>))"

definition checkIconFile :: "env \<Rightarrow> settings \<Rightarrow> nat io" where
  "checkIconFile E st s =
     (case Jimp_read E (iconfile st) s of
        (Resolved img, s') \<Rightarrow>
          (let width = bitmap.width (heap s' ! img);
               height = bitmap.height (heap s' ! img)
           in if width = 1024 \<and> width = height then (Resolved img, s')
              else (Rejected (StrError ''Bad image format''), s'))
      | (Rejected err, s') \<Rightarrow> (Rejected err, s')
      | (Uncaught err, s') \<Rightarrow> (Uncaught err, s'))"

definition checkSplashFile :: "env \<Rightarrow> settings \<Rightarrow> nat io" where
  "checkSplashFile E st s =
     (case Jimp_read E (splashfile st) s of
        (Resolved img, s') \<Rightarrow>
          (let width = bitmap.width (heap s' ! img);
               height = bitmap.height (heap s' ! img)
           in if width = 2732 \<and> width = height then (Resolved img, s')
              else (Rejected (StrError ''Bad image format''), s'))
      | (Rejected err, s') \<Rightarrow> (Rejected err, s')
      | (Uncaught err, s') \<Rightarrow> (Uncaught err, s'))"

definition getImages :: "env \<Rightarrow> settings \<Rightarrow> imageObjects io" where
  "getImages E st =
     thenP (checkIconFile E st) (\<lambda>img.
     thenP (checkSplashFile E st) (\<lambda>img'.
     resolve \<lparr>icon = img, splash = img'\<rparr>))"

definition checkOutPutDir :: "env \<Rightarrow> settings \<Rightarrow> unit io" where
  "checkOutPutDir E st s =
     (let dir = outputdirectory st;
          s' = s\<lparr>trace := trace s @ [EvPathExists dir]\<rparr>
      in if pathExists E (trace s) dir then (Resolved (), s')
         else (Rejected (StrError (''Output directory not found: '' @ dir)), s'))"

definition check :: "env \<Rightarrow> settings \<Rightarrow> unit io" where
  "check E st =
     thenP (thenP (thenP (thenP
       (\<lambda>s. (checkPlatforms st, s))
       (\<lambda>selPlatforms s. (Resolved (), s\<lparr>g_selectedPlatforms := selPlatforms\<rparr>)))
       (\<lambda>_. getImages E st))
       (\<lambda>iobjs s. (Resolved (), s\<lparr>g_imageObjects := Some iobjs\<rparr>)))
       (\<lambda>_. checkOutPutDir E st)"

section \<open>Generation\<close>

text \<open>
  \<^verbatim>\<open>imageObj.icon.clone()\<close>: a new image object with a copy of the bitmap. Reading a
  property of \<^verbatim>\<open>undefined\<close> throws, and an exception thrown while a \<^verbatim>\<open>mapSeries\<close>
  callback runs rejects the promise of the series.
\<close>

definition clone :: "nat \<Rightarrow> nat io" where
  "clone src s =
     (if src < length (heap s)
      then (Resolved (length (heap s)), s\<lparr>heap := heap s @ [heap s ! src]\<rparr>)
      else (Rejected (LibError ''TypeError''), s))"

text \<open>
  \<^verbatim>\<open>image.write(outputFilePath, (err) => { if (err) throw (err); defer.resolve(); })\<close>.
  An error handed to the callback while \<^verbatim>\<open>write\<close> is still running is thrown through
  the transform helper; one handed to it later is thrown into the event loop, and the
  deferred stays pending.
\<close>

definition image_write :: "env \<Rightarrow> nat \<Rightarrow> string \<Rightarrow> unit io" where
  "image_write E img outputFilePath s =
     (let bm = heap s ! img;
          s' = s\<lparr>trace := trace s @ [EvWrite outputFilePath bm]\<rparr>
      in case jimp_write E (trace s) outputFilePath bm of
           WriteOk \<Rightarrow> (Resolved (), s')
         | WriteErrSync err \<Rightarrow> (Rejected err, s')
         | WriteErrAsync err \<Rightarrow> (Uncaught err, s'))"

definition transformIcon ::
    "env \<Rightarrow> imageObjects option \<Rightarrow> string \<Rightarrow> output_definition \<Rightarrow> unit io" where
  "transformIcon E imageObj platformPath d =
     (case imageObj of
        None \<Rightarrow> reject (LibError ''TypeError'')
      | Some iobj \<Rightarrow>
          thenP (clone (icon iobj)) (\<lambda>img s.
            let outputFilePath = path_join E platformPath (name d) in
            case jimp_resize E (size_d d) (size_d d) (heap s ! img) of
              Inl err \<Rightarrow> (Rejected err, s)
            | Inr bm \<Rightarrow> image_write E img outputFilePath (s\<lparr>heap := (heap s)[img := bm]\<rparr>)))"

text \<open>The arguments \<^verbatim>\<open>x, y, width, height\<close> that \<^verbatim>\<open>transformSplash\<close> hands to \<^verbatim>\<open>crop\<close>.\<close>

definition crop_rect :: "bitmap \<Rightarrow> output_definition \<Rightarrow> rat \<times> rat \<times> int \<times> int" where
  "crop_rect bm d =
     (let x = (of_int (bitmap.width bm) - of_int (width_d d)) / 2;
          y = (of_int (bitmap.height bm) - of_int (height_d d)) / 2;
          width = width_d d;
          height = height_d d
      in (x, y, width, height))"

definition transformSplash ::
    "env \<Rightarrow> imageObjects option \<Rightarrow> string \<Rightarrow> output_definition \<Rightarrow> unit io" where
  "transformSplash E imageObj platformPath d =
     (case imageObj of
        None \<Rightarrow> reject (LibError ''TypeError'')
      | Some iobj \<Rightarrow>
          thenP (clone (splash iobj)) (\<lambda>img s.
            let (x, y, width, height) = crop_rect (heap s ! img) d;
                outputFilePath = path_join E platformPath (name d)
            in case jimp_crop E x y width height (heap s ! img) of
                 Inl err \<Rightarrow> (Rejected err, s)
               | Inr bm \<Rightarrow> image_write E img outputFilePath (s\<lparr>heap := (heap s)[img := bm]\<rparr>)))"

definition fs_ensureDir :: "env \<Rightarrow> string \<Rightarrow> unit io" where
  "fs_ensureDir E dir s =
     (let s' = s\<lparr>trace := trace s @ [EvEnsureDir dir]\<rparr>
      in case ensureDir E (trace s) dir of
           None \<Rightarrow> (Resolved (), s')
         | Some err \<Rightarrow> (Rejected err, s'))"

definition generateForConfig ::
    "env \<Rightarrow> imageObjects option \<Rightarrow> settings \<Rightarrow> config \<Rightarrow> unit io" where
  "generateForConfig E imageObj st cfg =
     (let platformPath = path_join E (outputdirectory st) (path cfg) in
      thenP (fs_ensureDir E platformPath) (\<lambda>_.
      thenP (mapSeries (definitions cfg) (\<lambda>d.
               if type cfg = ''icon'' then transformIcon E imageObj platformPath d
               else if type cfg = ''splash'' then transformSplash E imageObj platformPath d
               else resolve ()))
            (\<lambda>_. resolve ())))"

text \<open>
  The two nested \<^verbatim>\<open>forEach\<close> loops of \<^verbatim>\<open>generate\<close> that fill \<^verbatim>\<open>configs\<close>.
  \<^verbatim>\<open>PLATFORMS[platform].definitions\<close> throws for a platform that is not a key.
\<close>

fun collect_configs :: "env \<Rightarrow> string list \<Rightarrow> error + config list" where
  "collect_configs E [] = Inr []"
| "collect_configs E (p # ps) =
     (case map_of PLATFORMS p of
        None \<Rightarrow> Inl (LibError ''TypeError'')
      | Some defs \<Rightarrow>
          (case collect_configs E ps of
             Inl err \<Rightarrow> Inl err
           | Inr configs \<Rightarrow> Inr (map (require E) defs @ configs)))"

definition generate :: "env \<Rightarrow> imageObjects option \<Rightarrow> settings \<Rightarrow> unit io" where
  "generate E imageObj st s =
     (case collect_configs E (g_selectedPlatforms s) of
        Inl err \<Rightarrow> (Rejected err, s)
      | Inr configs \<Rightarrow>
          thenP (mapSeries configs (\<lambda>cfg. generateForConfig E imageObj st cfg))
                (\<lambda>_. resolve ()) s)"

section \<open>The entry point\<close>

text \<open>\<^verbatim>\<open>check(g_settings).then(() => generate(g_imageObjects, g_settings))\<close>.\<close>

definition pipeline :: "env \<Rightarrow> settings \<Rightarrow> unit io" where
  "pipeline E st =
     thenP (check E st) (\<lambda>_ s. generate E (g_imageObjects s) st s)"

text \<open>
  \<^verbatim>\<open>.catch((err) => catchErrors(err))\<close>: the handler runs on a rejection only, and prints
  the error if it is truthy. \<open>main\<close> returns what the handler printed, if it ran and
  printed, and the final state.
\<close>

fun catchErrors :: "error \<Rightarrow> error option" where
  "catchErrors (StrError m) = (if truthy (JStr m) then Some (StrError m) else None)"
| "catchErrors (LibError m) = Some (LibError m)"

definition main :: "env \<Rightarrow> settings \<Rightarrow> error option \<times> state" where
  "main E st =
     (case pipeline E st init_state of
        (Rejected err, s) \<Rightarrow> (catchErrors err, s)
      | (Resolved _, s) \<Rightarrow> (None, s)
      | (Uncaught _, s) \<Rightarrow> (None, s))"

section \<open>Reading the trace\<close>

text \<open>The paths of the files written, in the order of writing.\<close>

fun written_paths :: "event list \<Rightarrow> string list" where
  "written_paths [] = []"
| "written_paths (EvWrite p bm # evs) = p # written_paths evs"
| "written_paths (ev # evs) = written_paths evs"

text \<open>
  What one call of a transform helper does, as far as the heap and the trace show: the
  images that exist stay as they are, and the trace gains one write to \<open>p\<close>, or
  nothing when the helper fails before it writes.
\<close>

definition write_step :: "'a io \<Rightarrow> string \<Rightarrow> bool" where
  "write_step m p \<longleftrightarrow>
     (\<forall>s r s'. m s = (r, s') \<longrightarrow>
        prefix (heap s) (heap s') \<and>
        ((\<exists>bm. trace s' = trace s @ [EvWrite p bm]) \<or>
         (trace s' = trace s \<and> (\<forall>u. r \<noteq> Resolved u))))"

section \<open>The crop rectangle as the specification words it\<close>

text \<open>Integer division that truncates towards zero.\<close>

definition trunc_div :: "int \<Rightarrow> int \<Rightarrow> int" where
  "trunc_div a b = sgn a * sgn b * (\<bar>a\<bar> div \<bar>b\<bar>)"

text \<open>
  The rectangle with offsets \<open>(imgW - defW)/2\<close> and \<open>(imgH - defH)/2\<close> where the
  division by 2 is the truncating integer division.
\<close>

definition spec_crop_rect :: "bitmap \<Rightarrow> output_definition \<Rightarrow> rat \<times> rat \<times> int \<times> int" where
  "spec_crop_rect bm d =
     (of_int (trunc_div (bitmap.width bm - width_d d) 2),
      of_int (trunc_div (bitmap.height bm - height_d d) 2),
      width_d d, height_d d)"

section \<open>A concrete run\<close>

text \<open>
  Settings with the default paths, two source images of the required dimensions, two
  small definition sets, and libraries that succeed except where a parameter says
  otherwise: the inputs at which the theorems below are evaluated.
\<close>

definition example_settings :: "jsval \<Rightarrow> settings" where
  "example_settings p =
     \<lparr>iconfile = ''resources/icon.png'', splashfile = ''resources/splash.png'',
      platforms = p, outputdirectory = ''resources''\<rparr>"

definition example_icon :: bitmap where
  "example_icon = \<lparr>width = 1024, height = 1024, data = []\<rparr>"

definition example_splash :: bitmap where
  "example_splash = \<lparr>width = 2732, height = 2732, data = []\<rparr>"

definition scale_125 :: output_definition where
  "scale_125 = \<lparr>name = ''SplashScreen.scale-125.png'', size_d = 0, width_d = 775, height_d = 375\<rparr>"

definition example_config :: "string \<Rightarrow> config" where
  "example_config file =
     (if file = ''./platforms/splash/windows''
      then \<lparr>platform = ''windows'', type = ''splash'', path = ''windows/splash'',
            definitions =
              [\<lparr>name = ''SplashScreen.scale-100.png'', size_d = 0, width_d = 620, height_d = 300\<rparr>,
               scale_125]\<rparr>
      else \<lparr>platform = ''blackberry10'', type = ''icon'', path = ''blackberry10'',
            definitions =
              [\<lparr>name = ''icon-86.png'', size_d = 86, width_d = 0, height_d = 0\<rparr>,
               \<lparr>name = ''icon-150.png'', size_d = 150, width_d = 0, height_d = 0\<rparr>]\<rparr>)"

definition example_env :: "bitmap \<Rightarrow> write_result \<Rightarrow> env" where
  "example_env icon_bm wr =
     \<lparr>path_join = (\<lambda>a b. a @ ''/'' @ b),
      jimp_read = (\<lambda>tr file.
         if file = ''resources/icon.png'' then Inr icon_bm
         else if file = ''resources/splash.png'' then Inr example_splash
         else Inl (LibError ''ENOENT'')),
      jimp_resize = (\<lambda>w h bm. Inr (bm\<lparr>width := w, height := h\<rparr>)),
      jimp_crop = (\<lambda>x y w h bm. Inr (bm\<lparr>width := w, height := h\<rparr>)),
      jimp_write = (\<lambda>tr file bm. wr),
      pathExists = (\<lambda>tr dir. True),
      ensureDir = (\<lambda>tr dir. None),
      require = example_config\<rparr>"

text \<open>The state after a successful validation of the example with the filter \<^verbatim>\<open>blackberry10\<close>.\<close>

definition example_loaded :: state where
  "example_loaded =
     \<lparr>heap = [example_icon, example_splash],
      trace = [EvRead ''resources/icon.png'', EvRead ''resources/splash.png'',
               EvPathExists ''resources''],
      g_selectedPlatforms = [''blackberry10''],
      g_imageObjects = Some \<lparr>icon = 0, splash = 1\<rparr>\<rparr>"

section \<open>Properties of platform selection\<close>

lemma keys_PLATFORMS: "keys PLATFORMS = [''android'', ''ios'', ''windows'', ''blackberry10'']"
  by (simp add: keys_def PLATFORMS_def)

lemma empty_not_key: "[] \<notin> set (keys PLATFORMS)"
  by (simp add: keys_PLATFORMS)

lemma find_truthy_iff:
  "(case find (\<lambda>p. x = p) ks of None \<Rightarrow> False | Some p \<Rightarrow> truthy (JStr p)) \<longleftrightarrow>
     x \<in> set ks \<and> x \<noteq> []"
  by (induction ks) auto

lemma sort_platform_eq:
  "sort_platform ks acc t =
     (if t \<in> set ks \<and> t \<noteq> [] then (fst acc @ [t], snd acc) else (fst acc, snd acc @ [t]))"
  unfolding sort_platform_def find_truthy_iff by simp

text \<open>The \<^verbatim>\<open>forEach\<close> loop partitions the tokens and keeps their order.\<close>

lemma foldl_sort_platform:
  "foldl (sort_platform ks) (a, b) ts =
     (a @ filter (\<lambda>t. t \<in> set ks \<and> t \<noteq> []) ts,
      b @ filter (\<lambda>t. \<not> (t \<in> set ks \<and> t \<noteq> [])) ts)"
  by (induction ts arbitrary: a b) (simp_all add: sort_platform_eq)

lemma checkPlatforms_no_string:
  "\<not> truthy (platforms st) \<or> \<not> is_string (platforms st) \<Longrightarrow>
     checkPlatforms st = Resolved (keys PLATFORMS)"
  by (auto simp: checkPlatforms_def Let_def)

lemma checkPlatforms_string:
  assumes "platforms st = JStr s" and "s \<noteq> []"
  shows "checkPlatforms st =
     (let unknown = filter (\<lambda>t. t \<notin> set (keys PLATFORMS)) (split CHR '','' s)
      in if unknown \<noteq> [] then Rejected (StrError (''Bad platforms: '' @ join '','' unknown))
         else Resolved (filter (\<lambda>t. t \<in> set (keys PLATFORMS)) (split CHR '','' s)))"
proof -
  have known: "(t \<in> set (keys PLATFORMS) \<and> t \<noteq> []) = (t \<in> set (keys PLATFORMS))"
    and unknown: "(t \<in> set (keys PLATFORMS) \<longrightarrow> t = []) = (t \<notin> set (keys PLATFORMS))" for t
    using empty_not_key by auto
  from assms show ?thesis
    unfolding checkPlatforms_def by (simp add: foldl_sort_platform known unknown Let_def)
qed

lemma checkPlatforms_not_Uncaught: "checkPlatforms st \<noteq> Uncaught e"
  by (auto simp: checkPlatforms_def Let_def split: jsval.splits prod.splits)

text \<open>Splitting and joining are inverse to each other on tokens without the separator.\<close>

lemma split_not_Nil: "split c s \<noteq> []"
  by (induction s) (auto split: list.splits)

lemma join_Cons_Cons: "join sep ((a # t) # ts) = a # join sep (t # ts)"
  by (cases ts) simp_all

lemma join_split: "join [c] (split c s) = s"
  by (induction s) (auto split: list.splits simp: join_Cons_Cons)

lemma split_token: "c \<notin> set t \<Longrightarrow> split c (t @ c # s) = t # split c s"
  by (induction t) (auto split: list.splits)

lemma split_last_token: "c \<notin> set t \<Longrightarrow> split c t = [t]"
  by (induction t) (auto split: list.splits)

lemma split_join:
  "ts \<noteq> [] \<Longrightarrow> \<forall>t\<in>set ts. c \<notin> set t \<Longrightarrow> split c (join [c] ts) = ts"
  by (induction "[c]" ts rule: join.induct) (simp_all add: split_token split_last_token)

text \<open>
  A filter typed as a list of known platform identifiers, in any order and with
  repetitions, selects that very list.
\<close>

lemma checkPlatforms_join:
  assumes "ts \<noteq> []" and "set ts \<subseteq> set (keys PLATFORMS)"
  shows "checkPlatforms (st\<lparr>platforms := JStr (join '','' ts)\<rparr>) = Resolved ts"
proof -
  have "\<forall>t\<in>set ts. CHR '','' \<notin> set t"
    using assms(2) by (auto simp: keys_PLATFORMS)
  with assms(1) have sp: "split CHR '','' (join '','' ts) = ts"
    by (rule split_join)
  have ne: "join '','' ts \<noteq> []"
  proof
    assume "join '','' ts = []"
    with sp have "ts = [[]]" by simp
    with assms(2) empty_not_key show False by simp
  qed
  have "filter (\<lambda>t. t \<notin> set (keys PLATFORMS)) ts = []"
    and "filter (\<lambda>t. t \<in> set (keys PLATFORMS)) ts = ts"
    using assms(2) by (auto simp: filter_empty_conv filter_id_conv)
  then show ?thesis
    using checkPlatforms_string[of "st\<lparr>platforms := JStr (join '','' ts)\<rparr>", OF _ ne]
    by (simp add: sp)
qed

text \<open>
  C4. A filter string all of whose comma-separated tokens are keys of the registry is
  accepted, and the selection is the list of its tokens as typed: in the user's order,
  repeated tokens repeated.
\<close>

theorem checkPlatforms_known_tokens:
  assumes "platforms st = JStr s"
    and "set (split CHR '','' s) \<subseteq> set (keys PLATFORMS)"
  shows "checkPlatforms st = Resolved (split CHR '','' s)"
proof -
  have "s \<noteq> []"
    using assms(2) empty_not_key by auto
  moreover have "filter (\<lambda>t. t \<notin> set (keys PLATFORMS)) (split CHR '','' s) = []"
    using assms(2) by (auto simp: filter_empty_conv)
  moreover have "filter (\<lambda>t. t \<in> set (keys PLATFORMS)) (split CHR '','' s) = split CHR '','' s"
    using assms(2) by (auto simp: filter_id_conv)
  ultimately show ?thesis
    using checkPlatforms_string[OF assms(1)] by simp
qed

theorem checkPlatforms_known_tokens_witness:
  "checkPlatforms (example_settings (JStr ''ios,android,ios'')) = Resolved [''ios'', ''android'', ''ios'']"
proof -
  have p: "platforms (example_settings (JStr ''ios,android,ios'')) = JStr ''ios,android,ios''"
    by (simp add: example_settings_def)
  have sp: "split CHR '','' ''ios,android,ios'' = [''ios'', ''android'', ''ios'']"
    by simp
  have k: "set (split CHR '','' ''ios,android,ios'') \<subseteq> set (keys PLATFORMS)"
    unfolding sp by (simp add: keys_PLATFORMS)
  from checkPlatforms_known_tokens[OF p k] sp show ?thesis by simp
qed

text \<open>
  C6. Without a filter (the option is \<^verbatim>\<open>undefined\<close>) the selection succeeds with all
  keys of the registry in the registry's order: android, ios, windows, blackberry10.
\<close>

theorem checkPlatforms_no_filter:
  "checkPlatforms (st\<lparr>platforms := JUndefined\<rparr>) =
     Resolved [''android'', ''ios'', ''windows'', ''blackberry10'']"
  using checkPlatforms_no_string[of "st\<lparr>platforms := JUndefined\<rparr>"]
  by (simp add: keys_PLATFORMS)

theorem checkPlatforms_no_filter_witness:
  "checkPlatforms (example_settings JUndefined) =
     Resolved [''android'', ''ios'', ''windows'', ''blackberry10'']"
  using checkPlatforms_no_filter[of "example_settings JUndefined"]
  by (simp add: example_settings_def)

text \<open>
  C10. A filter that is the empty string, or that is not a string at all, is treated
  exactly as no filter: the selection succeeds with all keys of the registry, and the
  empty token is not reported as unknown.
\<close>

theorem checkPlatforms_empty_or_non_string:
  assumes "platforms st = JStr [] \<or> \<not> is_string (platforms st)"
  shows "checkPlatforms st = Resolved [''android'', ''ios'', ''windows'', ''blackberry10''] \<and>
         checkPlatforms st = checkPlatforms (st\<lparr>platforms := JUndefined\<rparr>)"
proof -
  from assms have "\<not> truthy (platforms st) \<or> \<not> is_string (platforms st)"
    by auto
  then have "checkPlatforms st = Resolved (keys PLATFORMS)"
    by (rule checkPlatforms_no_string)
  moreover have "checkPlatforms (st\<lparr>platforms := JUndefined\<rparr>) = Resolved (keys PLATFORMS)"
    by (rule checkPlatforms_no_string) simp
  ultimately show ?thesis by (simp add: keys_PLATFORMS)
qed

theorem checkPlatforms_empty_or_non_string_witness:
  "checkPlatforms (example_settings (JStr [])) =
     Resolved [''android'', ''ios'', ''windows'', ''blackberry10''] \<and>
   checkPlatforms (example_settings (JBool True)) =
     Resolved [''android'', ''ios'', ''windows'', ''blackberry10'']"
proof -
  have a: "platforms (example_settings (JStr [])) = JStr [] \<or>
           \<not> is_string (platforms (example_settings (JStr [])))"
    by (simp add: example_settings_def)
  have b: "platforms (example_settings (JBool True)) = JStr [] \<or>
           \<not> is_string (platforms (example_settings (JBool True)))"
    by (simp add: example_settings_def)
  from checkPlatforms_empty_or_non_string[OF a] checkPlatforms_empty_or_non_string[OF b]
  show ?thesis by simp
qed

section \<open>Properties of validation\<close>

lemma thenP_cases:
  assumes "thenP p f s = (r, s')"
  obtains (ok) a s1 where "p s = (Resolved a, s1)" and "f a s1 = (r, s')"
        | (fail) r1 where "p s = (r1, s')" and "\<forall>u. r1 \<noteq> Resolved u" and "\<forall>u. r \<noteq> Resolved u"
  using assms by (auto simp: thenP_def split: prod.splits outcome.splits)

lemma checkIconFile_eq:
  "checkIconFile E st s =
     (case jimp_read E (trace s) (iconfile st) of
        Inl err \<Rightarrow> (Rejected err, s\<lparr>trace := trace s @ [EvRead (iconfile st)]\<rparr>)
      | Inr bm \<Rightarrow>
          (if bitmap.width bm = 1024 \<and> bitmap.height bm = 1024 then Resolved (length (heap s))
           else Rejected (StrError ''Bad image format''),
           s\<lparr>trace := trace s @ [EvRead (iconfile st)], heap := heap s @ [bm]\<rparr>))"
  by (auto simp add: checkIconFile_def Jimp_read_def Let_def split: sum.splits)

lemma checkSplashFile_eq:
  "checkSplashFile E st s =
     (case jimp_read E (trace s) (splashfile st) of
        Inl err \<Rightarrow> (Rejected err, s\<lparr>trace := trace s @ [EvRead (splashfile st)]\<rparr>)
      | Inr bm \<Rightarrow>
          (if bitmap.width bm = 2732 \<and> bitmap.height bm = 2732 then Resolved (length (heap s))
           else Rejected (StrError ''Bad image format''),
           s\<lparr>trace := trace s @ [EvRead (splashfile st)], heap := heap s @ [bm]\<rparr>))"
  by (auto simp add: checkSplashFile_def Jimp_read_def Let_def split: sum.splits)

lemma check_eq:
  "check E st s =
    (case checkPlatforms st of
       Resolved ps \<Rightarrow>
         thenP (thenP (getImages E st) (\<lambda>iobjs s. (Resolved (), s\<lparr>g_imageObjects := Some iobjs\<rparr>)))
               (\<lambda>_. checkOutPutDir E st) (s\<lparr>g_selectedPlatforms := ps\<rparr>)
     | Rejected e \<Rightarrow> (Rejected e, s)
     | Uncaught e \<Rightarrow> (Uncaught e, s))"
  by (simp add: check_def thenP_def split: outcome.splits)

lemmas check_simps =
  check_eq getImages_def thenP_def checkIconFile_eq checkSplashFile_eq checkOutPutDir_def
  resolve_def Let_def


lemmas example_defs =
  example_settings_def example_icon_def example_splash_def example_config_def example_env_def
  example_loaded_def scale_125_def

text \<open>
  C1. For a decoded icon image the icon check succeeds exactly when width and height
  are both 1024, and every other pair of dimensions is rejected with the dimension error
  \<^verbatim>\<open>'Bad image format'\<close>; the splash check does the same with 2732.
\<close>

theorem check_files_exact_dimensions:
  "(jimp_read E (trace s) (iconfile st) = Inr bm \<longrightarrow>
      ((\<exists>img. fst (checkIconFile E st s) = Resolved img) \<longleftrightarrow>
         bitmap.width bm = 1024 \<and> bitmap.height bm = 1024) \<and>
      (\<not> (bitmap.width bm = 1024 \<and> bitmap.height bm = 1024) \<longrightarrow>
         fst (checkIconFile E st s) = Rejected (StrError ''Bad image format''))) \<and>
   (jimp_read E (trace s) (splashfile st) = Inr bm' \<longrightarrow>
      ((\<exists>img. fst (checkSplashFile E st s) = Resolved img) \<longleftrightarrow>
         bitmap.width bm' = 2732 \<and> bitmap.height bm' = 2732) \<and>
      (\<not> (bitmap.width bm' = 2732 \<and> bitmap.height bm' = 2732) \<longrightarrow>
         fst (checkSplashFile E st s) = Rejected (StrError ''Bad image format'')))"
  by (simp add: checkIconFile_eq checkSplashFile_eq)

theorem check_files_exact_dimensions_witness:
  "(\<exists>img. fst (checkIconFile (example_env example_icon WriteOk)
                 (example_settings JUndefined) init_state) = Resolved img) \<and>
   (\<exists>img. fst (checkSplashFile (example_env example_icon WriteOk)
                 (example_settings JUndefined) init_state) = Resolved img) \<and>
   fst (checkIconFile (example_env (example_icon\<lparr>height := 1023\<rparr>) WriteOk)
          (example_settings JUndefined) init_state) = Rejected (StrError ''Bad image format'')"
proof -
  let ?st = "example_settings JUndefined"
  let ?E = "example_env example_icon WriteOk"
  let ?E' = "example_env (example_icon\<lparr>height := 1023\<rparr>) WriteOk"
  have i: "jimp_read ?E (trace init_state) (iconfile ?st) = Inr example_icon"
    and sp: "jimp_read ?E (trace init_state) (splashfile ?st) = Inr example_splash"
    and i': "jimp_read ?E' (trace init_state) (iconfile ?st) = Inr (example_icon\<lparr>height := 1023\<rparr>)"
    and sp': "jimp_read ?E' (trace init_state) (splashfile ?st) = Inr example_splash"
    by (simp_all add: example_env_def example_settings_def)
  from check_files_exact_dimensions[of ?E init_state ?st example_icon example_splash] i sp
  have "(\<exists>img. fst (checkIconFile ?E ?st init_state) = Resolved img) \<and>
        (\<exists>img. fst (checkSplashFile ?E ?st init_state) = Resolved img)"
    by (simp add: example_icon_def example_splash_def)
  moreover
  from check_files_exact_dimensions[of ?E' init_state ?st "example_icon\<lparr>height := 1023\<rparr>" example_splash]
    i' sp'
  have "fst (checkIconFile ?E' ?st init_state) = Rejected (StrError ''Bad image format'')"
    by (simp add: example_icon_def)
  ultimately show ?thesis by simp
qed

text \<open>
  C7. Validation runs platform selection, the icon check, the splash check and the
  output directory check in this order, and stops at the first that fails: the trace
  shows the reads and the directory test made, so when the icon check fails the splash
  file is not read and the directory is not tested. Validation succeeds exactly when
  all four checks pass.
\<close>

theorem check_sequential:
  "(let tr = trace s; i = iconfile st; sp = splashfile st; dir = outputdirectory st;
        platforms_ok = (\<exists>ps. checkPlatforms st = Resolved ps);
        icon_ok = (\<exists>bm. jimp_read E tr i = Inr bm \<and>
                     bitmap.width bm = 1024 \<and> bitmap.height bm = 1024);
        splash_ok = (\<exists>bm. jimp_read E (tr @ [EvRead i]) sp = Inr bm \<and>
                     bitmap.width bm = 2732 \<and> bitmap.height bm = 2732);
        dir_ok = pathExists E (tr @ [EvRead i, EvRead sp]) dir
    in trace (snd (check E st s)) =
         tr @ (if \<not> platforms_ok then []
               else if \<not> icon_ok then [EvRead i]
               else if \<not> splash_ok then [EvRead i, EvRead sp]
               else [EvRead i, EvRead sp, EvPathExists dir]) \<and>
       (fst (check E st s) = Resolved () \<longleftrightarrow>
          platforms_ok \<and> icon_ok \<and> splash_ok \<and> dir_ok))"
proof (cases "checkPlatforms st")
  case (Resolved ps)
  show ?thesis
  proof (cases "jimp_read E (trace s) (iconfile st)")
    case (Inl err)
    with Resolved show ?thesis
      by (simp add: check_simps)
  next
    case icon: (Inr bm)
    show ?thesis
    proof (cases "jimp_read E (trace s @ [EvRead (iconfile st)]) (splashfile st)")
      case (Inl err)
      with Resolved icon show ?thesis
        by (simp add: check_simps)
    next
      case (Inr bm')
      with Resolved icon show ?thesis
        by (simp add: check_simps)
    qed
  qed
next
  case (Rejected e)
  then show ?thesis by (simp add: check_eq Let_def)
next
  case (Uncaught e)
  then show ?thesis using checkPlatforms_not_Uncaught by blast
qed

theorem check_sequential_witness:
  "trace (snd (check (example_env (example_icon\<lparr>width := 512, height := 512\<rparr>) WriteOk)
                 (example_settings JUndefined) init_state)) = [EvRead ''resources/icon.png''] \<and>
   fst (check (example_env (example_icon\<lparr>width := 512, height := 512\<rparr>) WriteOk)
          (example_settings JUndefined) init_state) \<noteq> Resolved ()"
  using check_sequential[of init_state "example_settings JUndefined"
      "example_env (example_icon\<lparr>width := 512, height := 512\<rparr>) WriteOk"]
        checkPlatforms_no_string[of "example_settings JUndefined"]
  by (simp add: example_settings_def example_env_def example_icon_def init_state_def Let_def)

section \<open>Unknown platforms and the whole run\<close>

lemma pipeline_platforms_rejected:
  "checkPlatforms st = Rejected e \<Longrightarrow> pipeline E st s = (Rejected e, s)"
  by (simp add: pipeline_def check_eq thenP_def)

text \<open>
  C5, as the code has it. A non-empty filter string with at least one token that is not
  a key of the registry is rejected with the list of its unknown tokens; the run ends
  in the initial state, so no platform is selected, no image is read and no file is
  written, and the rejection is what the error handler prints.
\<close>

theorem checkPlatforms_unknown_token_aborts:
  assumes "platforms st = JStr s" and "s \<noteq> []"
    and "\<not> set (split CHR '','' s) \<subseteq> set (keys PLATFORMS)"
  shows "checkPlatforms st =
           Rejected (StrError (''Bad platforms: '' @
             join '','' (filter (\<lambda>t. t \<notin> set (keys PLATFORMS)) (split CHR '','' s)))) \<and>
         main E st =
           (Some (StrError (''Bad platforms: '' @
              join '','' (filter (\<lambda>t. t \<notin> set (keys PLATFORMS)) (split CHR '','' s)))),
            init_state) \<and>
         g_selectedPlatforms (snd (main E st)) = [] \<and>
         written_paths (trace (snd (main E st))) = []"
proof -
  let ?unknown = "filter (\<lambda>t. t \<notin> set (keys PLATFORMS)) (split CHR '','' s)"
  from assms(3) have "?unknown \<noteq> []"
    by (auto simp: filter_empty_conv)
  with checkPlatforms_string[OF assms(1,2)]
  have sel: "checkPlatforms st = Rejected (StrError (''Bad platforms: '' @ join '','' ?unknown))"
    by simp
  then have "pipeline E st init_state =
      (Rejected (StrError (''Bad platforms: '' @ join '','' ?unknown)), init_state)"
    by (rule pipeline_platforms_rejected)
  then have "main E st = (Some (StrError (''Bad platforms: '' @ join '','' ?unknown)), init_state)"
    by (simp add: main_def)
  with sel show ?thesis by (simp add: init_state_def)
qed

theorem checkPlatforms_unknown_token_aborts_witness:
  "main (example_env example_icon WriteOk) (example_settings (JStr ''android,bogus'')) =
     (Some (StrError ''Bad platforms: bogus''), init_state)"
proof -
  let ?st = "example_settings (JStr ''android,bogus'')"
  have p: "platforms ?st = JStr ''android,bogus''"
    by (simp add: example_settings_def)
  have ne: "''android,bogus'' \<noteq> []" by simp
  have sp: "split CHR '','' ''android,bogus'' = [''android'', ''bogus'']" by simp
  have u: "\<not> set (split CHR '','' ''android,bogus'') \<subseteq> set (keys PLATFORMS)"
    unfolding sp by (simp add: keys_PLATFORMS)
  from checkPlatforms_unknown_token_aborts[OF p ne u, of "example_env example_icon WriteOk"]
  show ?thesis unfolding sp by (simp add: keys_PLATFORMS)
qed

text \<open>
  C5, as the claim words it, fails at the empty filter string: its only token, the empty
  one, is not a key of the registry, and yet every platform is selected.
\<close>

theorem checkPlatforms_empty_string_selects_all:
  "[] \<in> set (split CHR '','' []) \<and> [] \<notin> set (keys PLATFORMS) \<and>
   checkPlatforms (example_settings (JStr [])) =
     Resolved [''android'', ''ios'', ''windows'', ''blackberry10'']"
  by (simp add: keys_PLATFORMS checkPlatforms_def example_settings_def)

section \<open>Properties of generation\<close>

lemma write_stepD:
  "write_step m p \<Longrightarrow> m s = (r, s') \<Longrightarrow>
     prefix (heap s) (heap s') \<and>
     ((\<exists>bm. trace s' = trace s @ [EvWrite p bm]) \<or>
      (trace s' = trace s \<and> (\<forall>u. r \<noteq> Resolved u)))"
  unfolding write_step_def by blast

lemma clone_cases:
  assumes "clone src s = (r, s')"
  shows "(r = Resolved (length (heap s)) \<and> s' = s\<lparr>heap := heap s @ [heap s ! src]\<rparr>) \<or>
         (r = Rejected (LibError ''TypeError'') \<and> s' = s)"
  using assms by (auto simp: clone_def split: if_splits)

lemma image_write_cases:
  assumes "image_write E img p s = (r, s')"
  shows "heap s' = heap s \<and> trace s' = trace s @ [EvWrite p (heap s ! img)]"
  using assms by (auto simp: image_write_def Let_def split: write_result.splits)

text \<open>
  Both transform helpers clone a source image, change the clone in place and write it.
  Whatever the change is, the images that existed before are not touched.
\<close>

lemma clone_change_write_step:
  assumes body: "\<And>img s. \<exists>res. body img s =
      (case res of Inl err \<Rightarrow> (Rejected err, s)
       | Inr bm \<Rightarrow> image_write E img p (s\<lparr>heap := (heap s)[img := bm]\<rparr>))"
  shows "write_step (thenP (clone src) body) p"
  unfolding write_step_def
proof (intro allI impI)
  fix s r s'
  assume "thenP (clone src) body s = (r, s')"
  then show "prefix (heap s) (heap s') \<and>
        ((\<exists>bm. trace s' = trace s @ [EvWrite p bm]) \<or>
         (trace s' = trace s \<and> (\<forall>u. r \<noteq> Resolved u)))"
  proof (cases rule: thenP_cases)
    case (ok a s1)
    from clone_cases[OF ok(1)]
    have s1: "s1 = s\<lparr>heap := heap s @ [heap s ! src]\<rparr>" and a: "a = length (heap s)"
      by auto
    from body[of a s1] obtain res where res: "body a s1 =
      (case res of Inl err \<Rightarrow> (Rejected err, s1)
       | Inr bm \<Rightarrow> image_write E a p (s1\<lparr>heap := (heap s1)[a := bm]\<rparr>))" ..
    show ?thesis
    proof (cases res)
      case (Inl err)
      with res ok(2) s1 show ?thesis by auto
    next
      case (Inr bm)
      with res ok(2) have "image_write E a p (s1\<lparr>heap := (heap s1)[a := bm]\<rparr>) = (r, s')"
        by simp
      from image_write_cases[OF this] s1 a show ?thesis by (auto simp: prefix_def)
    qed
  next
    case (fail r1)
    with clone_cases[OF fail(1)] show ?thesis by auto
  qed
qed

lemma transformIcon_step:
  "write_step (transformIcon E imageObj P d) (path_join E P (name d))"
proof (cases imageObj)
  case None
  then show ?thesis by (auto simp: write_step_def transformIcon_def reject_def)
next
  case (Some iobj)
  have "write_step (thenP (clone (icon iobj)) (\<lambda>img s.
            let outputFilePath = path_join E P (name d) in
            case jimp_resize E (size_d d) (size_d d) (heap s ! img) of
              Inl err \<Rightarrow> (Rejected err, s)
            | Inr bm \<Rightarrow> image_write E img outputFilePath (s\<lparr>heap := (heap s)[img := bm]\<rparr>)))
          (path_join E P (name d))"
    by (rule clone_change_write_step) (auto simp: Let_def)
  with Some show ?thesis by (simp add: transformIcon_def)
qed

lemma transformSplash_step:
  "write_step (transformSplash E imageObj P d) (path_join E P (name d))"
proof (cases imageObj)
  case None
  then show ?thesis by (auto simp: write_step_def transformSplash_def reject_def)
next
  case (Some iobj)
  have "write_step (thenP (clone (splash iobj)) (\<lambda>img s.
            let (x, y, width, height) = crop_rect (heap s ! img) d;
                outputFilePath = path_join E P (name d)
            in case jimp_crop E x y width height (heap s ! img) of
                 Inl err \<Rightarrow> (Rejected err, s)
               | Inr bm \<Rightarrow> image_write E img outputFilePath (s\<lparr>heap := (heap s)[img := bm]\<rparr>)))
          (path_join E P (name d))"
    by (rule clone_change_write_step) (auto simp: Let_def split: prod.splits)
  with Some show ?thesis by (simp add: transformSplash_def)
qed

text \<open>
  A series of such steps writes for a prefix of the list, one file per element and in
  the order of the list, and for the whole list when the series resolves.
\<close>

lemma mapSeries_writes:
  assumes step: "\<And>d. write_step (f d) (g d)"
  shows "mapSeries ds f s = (r, s') \<Longrightarrow>
     prefix (heap s) (heap s') \<and>
     (\<exists>n bms. n \<le> length ds \<and> length bms = n \<and>
        trace s' = trace s @ map (\<lambda>(d, bm). EvWrite (g d) bm) (zip (take n ds) bms) \<and>
        ((\<exists>u. r = Resolved u) \<longrightarrow> n = length ds))"
proof (induction ds arbitrary: s r s')
  case Nil
  then show ?case by (simp add: resolve_def)
next
  case (Cons d ds)
  let ?ev = "\<lambda>(d, bm). EvWrite (g d) bm"
  from Cons.prems
  have "thenP (f d) (\<lambda>y. thenP (mapSeries ds f) (\<lambda>ys. resolve (y # ys))) s = (r, s')"
    by simp
  then show ?case
  proof (cases rule: thenP_cases)
    case (ok a s1)
    from write_stepD[OF step ok(1)] obtain bm
      where h1: "prefix (heap s) (heap s1)" and tr1: "trace s1 = trace s @ [EvWrite (g d) bm]"
      by blast
    obtain r2 where rest: "mapSeries ds f s1 = (r2, s')"
      and r2: "(\<exists>u. r = Resolved u) \<longrightarrow> (\<exists>u. r2 = Resolved u)"
      using ok(2) by (cases rule: thenP_cases) (auto simp: resolve_def)
    from Cons.IH[OF rest] obtain n bms where
      n: "prefix (heap s1) (heap s')" "n \<le> length ds" "length bms = n"
         "trace s' = trace s1 @ map ?ev (zip (take n ds) bms)"
         "(\<exists>u. r2 = Resolved u) \<longrightarrow> n = length ds"
      by blast
    have "trace s' = trace s @ map ?ev (zip (take (Suc n) (d # ds)) (bm # bms))"
      using n(4) tr1 by simp
    moreover have "Suc n \<le> length (d # ds)" and "length (bm # bms) = Suc n"
      using n(2,3) by simp_all
    moreover have "(\<exists>u. r = Resolved u) \<longrightarrow> Suc n = length (d # ds)"
      using n(5) r2 by simp
    moreover have "prefix (heap s) (heap s')"
      using h1 n(1) by (rule prefix_order.trans)
    ultimately show ?thesis by blast
  next
    case (fail r1)
    from write_stepD[OF step fail(1)]
    have h: "prefix (heap s) (heap s')"
      and "(\<exists>bm. trace s' = trace s @ [EvWrite (g d) bm]) \<or> trace s' = trace s"
      by blast+
    then consider bm where "trace s' = trace s @ [EvWrite (g d) bm]" | "trace s' = trace s"
      by blast
    then show ?thesis
    proof cases
      case 1
      then have "trace s' = trace s @ map ?ev (zip (take (Suc 0) (d # ds)) [bm])"
        by simp
      moreover have "Suc 0 \<le> length (d # ds)" and "length [bm] = Suc 0"
        by simp_all
      ultimately show ?thesis using h fail(3) by blast
    next
      case 2
      then have "trace s' = trace s @ map ?ev (zip (take 0 (d # ds)) [])"
        by simp
      moreover have "0 \<le> length (d # ds)" and "length ([] :: bitmap list) = 0"
        by simp_all
      ultimately show ?thesis using h fail(3) by blast
    qed
  qed
qed

lemma mapSeries_resolve: "mapSeries ds (\<lambda>d. resolve ()) s = (r, s') \<Longrightarrow> s' = s"
  by (induction ds arbitrary: r s')
     (auto simp: resolve_def thenP_def split: prod.splits outcome.splits)

lemma fs_ensureDir_cases:
  "fs_ensureDir E dir s = (r, s') \<Longrightarrow>
     heap s' = heap s \<and> trace s' = trace s @ [EvEnsureDir dir]"
  by (auto simp: fs_ensureDir_def Let_def split: option.splits)

lemma generateForConfig_trace:
  assumes "generateForConfig E imageObj st cfg s = (r, s')"
  shows "prefix (heap s) (heap s') \<and>
    (\<exists>n bms. n \<le> length (definitions cfg) \<and> length bms = n \<and>
       trace s' = trace s @ EvEnsureDir (path_join E (outputdirectory st) (path cfg)) #
          map (\<lambda>(d, bm). EvWrite
                 (path_join E (path_join E (outputdirectory st) (path cfg)) (name d)) bm)
              (zip (take n (definitions cfg)) bms) \<and>
       (r = Resolved () \<and> (type cfg = ''icon'' \<or> type cfg = ''splash'') \<longrightarrow>
          n = length (definitions cfg)) \<and>
       (type cfg \<noteq> ''icon'' \<and> type cfg \<noteq> ''splash'' \<longrightarrow> n = 0))"
proof -
  define P where "P = path_join E (outputdirectory st) (path cfg)"
  define f where "f = (\<lambda>d. if type cfg = ''icon'' then transformIcon E imageObj P d
               else if type cfg = ''splash'' then transformSplash E imageObj P d
               else resolve ())"
  let ?goal = "\<lambda>s'. prefix (heap s) (heap s') \<and>
    (\<exists>n bms. n \<le> length (definitions cfg) \<and> length bms = n \<and>
       trace s' = trace s @ EvEnsureDir P #
          map (\<lambda>(d, bm). EvWrite (path_join E P (name d)) bm) (zip (take n (definitions cfg)) bms) \<and>
       (r = Resolved () \<and> (type cfg = ''icon'' \<or> type cfg = ''splash'') \<longrightarrow>
          n = length (definitions cfg)) \<and>
       (type cfg \<noteq> ''icon'' \<and> type cfg \<noteq> ''splash'' \<longrightarrow> n = 0))"
  from assms
  have run: "thenP (fs_ensureDir E P)
      (\<lambda>_. thenP (mapSeries (definitions cfg) f) (\<lambda>_. resolve ())) s = (r, s')"
    unfolding generateForConfig_def P_def f_def Let_def .
  have none: "?goal s'"
    if "heap s' = heap s" and "trace s' = trace s @ [EvEnsureDir P]"
      and "\<not> (r = Resolved () \<and> (type cfg = ''icon'' \<or> type cfg = ''splash''))" for s'
    using that by (intro conjI exI[of _ 0] exI[of _ "[]"]) auto
  from run have "?goal s'"
  proof (cases rule: thenP_cases)
    case (ok a s1)
    note dir = fs_ensureDir_cases[OF ok(1)]
    obtain r2 where series: "mapSeries (definitions cfg) f s1 = (r2, s')"
      and r2: "r = Resolved () \<longrightarrow> (\<exists>u. r2 = Resolved u)"
      using ok(2) by (cases rule: thenP_cases) (auto simp: resolve_def)
    show ?thesis
    proof (cases "type cfg = ''icon'' \<or> type cfg = ''splash''")
      case True
      then have "write_step (f d) (path_join E P (name d))" for d
        by (auto simp: f_def transformIcon_step transformSplash_step)
      from mapSeries_writes[OF this series] obtain n bms where
        m: "prefix (heap s1) (heap s')" "n \<le> length (definitions cfg)" "length bms = n"
           "trace s' = trace s1 @
              map (\<lambda>(d, bm). EvWrite (path_join E P (name d)) bm) (zip (take n (definitions cfg)) bms)"
           "(\<exists>u. r2 = Resolved u) \<longrightarrow> n = length (definitions cfg)"
        by blast
      have "trace s' = trace s @ EvEnsureDir P #
          map (\<lambda>(d, bm). EvWrite (path_join E P (name d)) bm) (zip (take n (definitions cfg)) bms)"
        using m(4) dir by simp
      moreover have "r = Resolved () \<and> (type cfg = ''icon'' \<or> type cfg = ''splash'') \<longrightarrow>
          n = length (definitions cfg)"
        using m(5) r2 by blast
      moreover have "type cfg \<noteq> ''icon'' \<and> type cfg \<noteq> ''splash'' \<longrightarrow> n = 0"
        using True by blast
      moreover have "prefix (heap s) (heap s')"
        using m(1) dir by simp
      ultimately show ?thesis
        using m(2,3) by blast
    next
      case False
      then have "f = (\<lambda>d. resolve ())" by (auto simp: f_def)
      with series have "s' = s1" using mapSeries_resolve by blast
      with dir False show ?thesis by (intro none) auto
    qed
  next
    case (fail r1)
    with fs_ensureDir_cases[OF fail(1)] show ?thesis by (intro none) auto
  qed
  then show ?thesis by (simp add: P_def)
qed




text \<open>Nothing is written when the directory cannot be ensured.\<close>

lemma generateForConfig_ensureDir_failed:
  assumes "ensureDir E (trace s) (path_join E (outputdirectory st) (path cfg)) = Some err"
  shows "generateForConfig E imageObj st cfg s =
     (Rejected err,
      s\<lparr>trace := trace s @ [EvEnsureDir (path_join E (outputdirectory st) (path cfg))]\<rparr>)"
  using assms by (simp add: generateForConfig_def fs_ensureDir_def thenP_def Let_def)

text \<open>
  C8. Generating one definition set first ensures the directory
  \<^verbatim>\<open>join(outputdirectory, config.path)\<close> and then only writes files, each at
  \<^verbatim>\<open>join(join(outputdirectory, config.path), definition.name)\<close>, for the definitions in
  their order: for a prefix of them, cut at the first failure, and for all of them when
  generation of an icon or splash set resolves. Files are written only after the
  directory has been ensured: when ensuring it fails, generation of the set is rejected
  with that error and no file is written. A set of any other type writes no file.
\<close>

theorem generateForConfig_output_paths:
  assumes "generateForConfig E imageObj st cfg s = (r, s')"
  shows "\<exists>n bms. n \<le> length (definitions cfg) \<and> length bms = n \<and>
       trace s' = trace s @ EvEnsureDir (path_join E (outputdirectory st) (path cfg)) #
          map (\<lambda>(d, bm). EvWrite
                 (path_join E (path_join E (outputdirectory st) (path cfg)) (name d)) bm)
              (zip (take n (definitions cfg)) bms) \<and>
       (r = Resolved () \<and> (type cfg = ''icon'' \<or> type cfg = ''splash'') \<longrightarrow>
          n = length (definitions cfg)) \<and>
       (\<forall>err. ensureDir E (trace s) (path_join E (outputdirectory st) (path cfg)) = Some err \<longrightarrow>
          r = Rejected err \<and> n = 0) \<and>
       (0 < n \<longrightarrow> ensureDir E (trace s) (path_join E (outputdirectory st) (path cfg)) = None) \<and>
       (type cfg \<noteq> ''icon'' \<and> type cfg \<noteq> ''splash'' \<longrightarrow> n = 0)"
proof (cases "ensureDir E (trace s) (path_join E (outputdirectory st) (path cfg))")
  case None
  with generateForConfig_trace[OF assms] show ?thesis
    by simp
next
  case (Some err)
  from generateForConfig_ensureDir_failed[OF Some, of imageObj] assms
  have r: "r = Rejected err"
    and s': "s' = s\<lparr>trace := trace s @ [EvEnsureDir (path_join E (outputdirectory st) (path cfg))]\<rparr>"
    by simp_all
  show ?thesis
    by (intro exI[of _ 0] exI[of _ "[]"]) (simp add: r s' Some)
qed

theorem generateForConfig_output_paths_witness:
  "fst (generateForConfig (example_env example_icon WriteOk) (Some \<lparr>icon = 0, splash = 1\<rparr>)
          (example_settings JUndefined) (example_config ''./platforms/splash/windows'')
          example_loaded) = Resolved () \<and>
   written_paths (trace (snd (generateForConfig (example_env example_icon WriteOk)
          (Some \<lparr>icon = 0, splash = 1\<rparr>) (example_settings JUndefined)
          (example_config ''./platforms/splash/windows'') example_loaded))) =
     [''resources/windows/splash/SplashScreen.scale-100.png'',
      ''resources/windows/splash/SplashScreen.scale-125.png''] \<and>
   generateForConfig
     (example_env example_icon WriteOk\<lparr>ensureDir := \<lambda>tr dir. Some (LibError ''EEXIST'')\<rparr>)
     (Some \<lparr>icon = 0, splash = 1\<rparr>) (example_settings JUndefined)
     (example_config ''./platforms/splash/windows'') example_loaded =
     (Rejected (LibError ''EEXIST''),
      example_loaded\<lparr>trace := trace example_loaded @ [EvEnsureDir ''resources/windows/splash'']\<rparr>)"
proof -
  let ?E = "example_env example_icon WriteOk"
  let ?F = "example_env example_icon WriteOk\<lparr>ensureDir := \<lambda>tr dir. Some (LibError ''EEXIST'')\<rparr>"
  let ?st = "example_settings JUndefined"
  let ?cfg = "example_config ''./platforms/splash/windows''"
  let ?run = "generateForConfig ?E (Some \<lparr>icon = 0, splash = 1\<rparr>) ?st ?cfg example_loaded"
  let ?bad = "generateForConfig ?F (Some \<lparr>icon = 0, splash = 1\<rparr>) ?st ?cfg example_loaded"
  have r: "fst ?run = Resolved ()"
    by code_simp
  then have "?run = (Resolved (), snd ?run)"
    by (metis prod.collapse)
  from generateForConfig_output_paths[OF this] obtain n bms where
    n: "length bms = n"
       "trace (snd ?run) = trace example_loaded @
          EvEnsureDir (path_join ?E (outputdirectory ?st) (path ?cfg)) #
          map (\<lambda>(d, bm). EvWrite
                 (path_join ?E (path_join ?E (outputdirectory ?st) (path ?cfg)) (name d)) bm)
              (zip (take n (definitions ?cfg)) bms)"
       "Resolved () = Resolved () \<and> (type ?cfg = ''icon'' \<or> type ?cfg = ''splash'') \<longrightarrow>
          n = length (definitions ?cfg)"
    by blast
  have "type ?cfg = ''splash''" and len: "length (definitions ?cfg) = 2"
    by (simp_all add: example_config_def)
  with n(3) have "n = 2" by simp
  with n(1) obtain b1 b2 where bms: "bms = [b1, b2]"
    by (cases bms; cases "tl bms") auto
  have paths: "written_paths (trace (snd ?run)) =
     [''resources/windows/splash/SplashScreen.scale-100.png'',
      ''resources/windows/splash/SplashScreen.scale-125.png'']"
    unfolding n(2) bms \<open>n = 2\<close>
    by (simp add: example_defs)
  have failing: "ensureDir ?F (trace example_loaded) (path_join ?F (outputdirectory ?st) (path ?cfg)) =
      Some (LibError ''EEXIST'')"
    by simp
  have "?bad = (fst ?bad, snd ?bad)"
    by simp
  from generateForConfig_output_paths[OF this] failing obtain m cms where
    m: "length cms = m" "m = 0" "fst ?bad = Rejected (LibError ''EEXIST'')"
       "trace (snd ?bad) = trace example_loaded @
          EvEnsureDir (path_join ?F (outputdirectory ?st) (path ?cfg)) #
          map (\<lambda>(d, bm). EvWrite
                 (path_join ?F (path_join ?F (outputdirectory ?st) (path ?cfg)) (name d)) bm)
              (zip (take m (definitions ?cfg)) cms)"
    by blast
  then have tr: "trace (snd ?bad) = trace example_loaded @ [EvEnsureDir ''resources/windows/splash'']"
    by (simp add: example_defs)
  have rest: "heap (snd ?bad) = heap example_loaded"
    "g_selectedPlatforms (snd ?bad) = g_selectedPlatforms example_loaded"
    "g_imageObjects (snd ?bad) = g_imageObjects example_loaded"
    by code_simp+
  have "snd ?bad = example_loaded\<lparr>trace := trace example_loaded @ [EvEnsureDir ''resources/windows/splash'']\<rparr>"
    using tr rest by (cases "snd ?bad") (simp add: example_loaded_def)
  with m(3) have "?bad = (Rejected (LibError ''EEXIST''),
      example_loaded\<lparr>trace := trace example_loaded @ [EvEnsureDir ''resources/windows/splash'']\<rparr>)"
    by (metis prod.collapse)
  with r paths show ?thesis by simp
qed



section \<open>The crop rectangle\<close>

lemma half_is_int_iff: "((of_int a :: rat) / 2 = of_int k) \<longleftrightarrow> a = 2 * k"
proof -
  have "((of_int a :: rat) / 2 = of_int k) \<longleftrightarrow> (of_int a :: rat) = of_int (2 * k)"
    by (simp add: field_simps)
  also have "\<dots> \<longleftrightarrow> a = 2 * k"
    by (simp only: of_int_eq_iff)
  finally show ?thesis .
qed

lemma trunc_div_2_even: "even a \<Longrightarrow> 2 * trunc_div a 2 = a"
  by (cases "a < 0") (auto simp: trunc_div_def sgn_if abs_if elim!: evenE)

lemma crop_offset_integral:
  "((of_int a - of_int b :: rat) / 2 = of_int (trunc_div (a - b) 2)) \<longleftrightarrow> even (a - b)"
proof -
  have "((of_int a - of_int b :: rat) / 2 = of_int (trunc_div (a - b) 2)) \<longleftrightarrow>
        (of_int (a - b) :: rat) / 2 = of_int (trunc_div (a - b) 2)"
    by simp
  also have "\<dots> \<longleftrightarrow> a - b = 2 * trunc_div (a - b) 2"
    by (rule half_is_int_iff)
  also have "\<dots> \<longleftrightarrow> even (a - b)"
    using trunc_div_2_even[of "a - b"] by (metis dvd_triv_left)
  finally show ?thesis .
qed

text \<open>
  C2, as the code has it. The crop rectangle has the definition's width and height, and
  its offsets are the exact halves of the differences between the image's and the
  definition's dimensions: twice the offset is the difference. An offset is the
  truncating integer quotient exactly when its difference is even; for an odd
  difference it is not an integer.
\<close>

theorem crop_rect_exact_half:
  assumes "crop_rect bm d = (x, y, w, h)"
  shows "2 * x = of_int (bitmap.width bm - width_d d) \<and>
     2 * y = of_int (bitmap.height bm - height_d d) \<and>
     w = width_d d \<and> h = height_d d \<and>
     (x = of_int (trunc_div (bitmap.width bm - width_d d) 2) \<longleftrightarrow>
        even (bitmap.width bm - width_d d)) \<and>
     (y = of_int (trunc_div (bitmap.height bm - height_d d) 2) \<longleftrightarrow>
        even (bitmap.height bm - height_d d))"
  using assms crop_offset_integral[of "bitmap.width bm" "width_d d"]
    crop_offset_integral[of "bitmap.height bm" "height_d d"]
  by (auto simp: crop_rect_def Let_def)

theorem crop_rect_exact_half_witness:
  "crop_rect example_splash scale_125 = (1957 / 2, 2357 / 2, 775, 375) \<and>
   2 * (1957 / 2 :: rat) = of_int (bitmap.width example_splash - width_d scale_125) \<and>
   (1957 / 2 :: rat) \<noteq> of_int (trunc_div (bitmap.width example_splash - width_d scale_125) 2)"
proof -
  have c: "crop_rect example_splash scale_125 = (1957 / 2, 2357 / 2, 775, 375)"
    by (simp add: crop_rect_def example_splash_def scale_125_def Let_def)
  from crop_rect_exact_half[OF c] c show ?thesis
    by (simp add: example_splash_def scale_125_def)
qed

text \<open>
  C2, as the claim words it, fails for an odd difference: cropping the 2732 wide splash
  image to a width of 775 starts at 978.5, not at the truncated 978.
\<close>

theorem crop_rect_not_truncating:
  "crop_rect example_splash scale_125 \<noteq> spec_crop_rect example_splash scale_125"
  by (simp add: crop_rect_def spec_crop_rect_def trunc_div_def example_splash_def
      scale_125_def Let_def)

section \<open>Failures while generating\<close>

text \<open>A failure of one element ends the series: no later element is started.\<close>

lemma mapSeries_stops:
  "f x s = (r, s1) \<Longrightarrow> \<forall>u. r \<noteq> Resolved u \<Longrightarrow>
     snd (mapSeries (x # xs) f s) = s1 \<and> (\<forall>u. fst (mapSeries (x # xs) f s) \<noteq> Resolved u)"
  by (cases r) (simp_all add: thenP_def)

text \<open>
  An error that the write callback receives from the event loop is thrown there: the
  promise of the transform helper never settles.
\<close>

lemma image_write_async_error:
  "jimp_write E (trace s) p (heap s ! img) = WriteErrAsync err \<Longrightarrow>
     fst (image_write E img p s) = Uncaught err"
  by (simp add: image_write_def Let_def)

text \<open>The error handler runs for a rejection only.\<close>

lemma main_Uncaught: "fst (pipeline E st init_state) = Uncaught err \<Longrightarrow> fst (main E st) = None"
  by (cases "pipeline E st init_state") (simp add: main_def)

text \<open>
  C3. In the example, the first icon cannot be written, and the library reports this
  to the write callback from the event loop. The callback throws instead of rejecting
  its deferred: the run ends with an exception outside the promise chain, the error
  handler of the entry point prints nothing, and the second icon is never written.
\<close>

theorem write_failure_not_reported:
  "fst (pipeline (example_env example_icon (WriteErrAsync (LibError ''EACCES'')))
          (example_settings (JStr ''blackberry10'')) init_state) = Uncaught (LibError ''EACCES'') \<and>
   fst (main (example_env example_icon (WriteErrAsync (LibError ''EACCES'')))
          (example_settings (JStr ''blackberry10''))) = None \<and>
   written_paths (trace (snd (main (example_env example_icon (WriteErrAsync (LibError ''EACCES'')))
          (example_settings (JStr ''blackberry10''))))) = [''resources/blackberry10/icon-86.png'']"
  by code_simp


end
